theory Spec2Isabelle
  imports Complex_Main "HOL-Library.Word"
begin

unbundle bit_operations_syntax

section \<open>Go values used by the converter\<close>

text \<open>
  The converter \<^verbatim>\<open>sfxEventToPDataLogs\<close> of
  \<^verbatim>\<open>internal/receiver/smartagentreceiver/converter/event.go\<close> reads a SignalFx
  \<^verbatim>\<open>event.Event\<close> and fills one \<^verbatim>\<open>plog.LogRecord\<close>. Machine integers are words
  (Go's \<^verbatim>\<open>int\<close>, \<^verbatim>\<open>uint\<close> and \<^verbatim>\<open>uintptr\<close> are taken at 64 bits), a Go string is a
  byte string, and a floating-point number is its IEEE 754 bit pattern.
\<close>

type_synonym int8 = "8 word"
type_synonym int16 = "16 word"
type_synonym int32 = "32 word"
type_synonym int64 = "64 word"
type_synonym uint64 = "64 word"
type_synonym float32 = "32 word"
type_synonym float64 = "64 word"

text \<open>
  A property value has the static type \<^verbatim>\<open>interface{}\<close>. The datatype lists the dynamic
  types the type switch names, the unsigned integers, and any further dynamic type
  (\<open>GoOther\<close>, over a type parameter); \<open>GoNil\<close> is the nil interface value.
\<close>

datatype 'o any =
    GoNil
  | GoString string
  | GoBool bool
  | GoInt int64
  | GoInt8 int8
  | GoInt16 int16
  | GoInt32 int32
  | GoInt64 int64
  | GoFloat32 float32
  | GoFloat64 float64
  | GoUint uint64
  | GoUint8 "8 word"
  | GoUint16 "16 word"
  | GoUint32 "32 word"
  | GoUint64 uint64
  | GoUintptr uint64
  | GoOther 'o

subsection \<open>time.Time\<close>

text \<open>
  A \<^verbatim>\<open>time.Time\<close> is read through \<^verbatim>\<open>sec()\<close>, the seconds since January 1 of year 1,
  00:00:00 UTC, and \<^verbatim>\<open>nsec()\<close>, the nanoseconds within the second (0 to 999999999).
  The zero value has both at 0. \<^verbatim>\<open>UnixNano\<close> is computed in \<^verbatim>\<open>int64\<close> and wraps.
\<close>

record Time =
  sec :: int64
  nsec :: int32

definition IsZero :: "Time \<Rightarrow> bool" where
  "IsZero t \<longleftrightarrow> sec t = 0 \<and> nsec t = 0"

definition unixToInternal :: int64 where
  "unixToInternal = (1969 * 365 + 1969 div 4 - 1969 div 100 + 1969 div 400) * 86400"

definition internalToUnix :: int64 where
  "internalToUnix = - unixToInternal"

definition unixSec :: "Time \<Rightarrow> int64" where
  "unixSec t = sec t + internalToUnix"

definition UnixNano :: "Time \<Rightarrow> int64" where
  "UnixNano t = unixSec t * 1000000000 + scast (nsec t)"

text \<open>\<^verbatim>\<open>time.Unix(s, 0)\<close>: the instant \<open>s\<close> seconds after the Unix epoch.\<close>

definition Unix :: "int64 \<Rightarrow> Time" where
  "Unix s = \<lparr>sec = s + unixToInternal, nsec = 0\<rparr>"

definition valid_Time :: "Time \<Rightarrow> bool" where
  "valid_Time t \<longleftrightarrow> 0 \<le> sint (nsec t) \<and> sint (nsec t) < 1000000000"

subsection \<open>event.Event\<close>

text \<open>
  A Go map has unique keys and no fixed iteration order. Each map of the event is the
  list of its entries in the order in which this run of \<^verbatim>\<open>range\<close> visits them; a nil
  map is the empty list.
\<close>

record 'o Event =
  EventType :: string
  Category :: int32
  Dimensions :: "(string \<times> string) list"
  Properties :: "(string \<times> 'o any) list"
  Timestamp :: Time

definition valid_Event :: "'o Event \<Rightarrow> bool" where
  "valid_Event e \<longleftrightarrow>
     distinct (map fst (Dimensions e)) \<and> distinct (map fst (Properties e)) \<and>
     valid_Time (Timestamp e)"

section \<open>The pdata model\<close>

text \<open>
  \<^verbatim>\<open>pcommon.Value\<close> and \<^verbatim>\<open>pcommon.Map\<close> belong to the collector's pdata library. A
  \<^verbatim>\<open>Map\<close> is a slice of key/value entries. \<^verbatim>\<open>Get\<close> returns the first entry with the
  key. Every member of the \<^verbatim>\<open>Insert\<close> family is documented as: "adds the Value to the
  map when the key does not exist. No action is applied to the map where the key already
  exists." (\<^verbatim>\<open>Upsert\<close>, which the converter does not call, is the overwriting one.)
\<close>

datatype Value =
    ValueNull
  | ValueString string
  | ValueInt int64
  | ValueDouble float64
  | ValueBool bool
  | ValueMap "(string \<times> Value) list"

type_synonym Map = "(string \<times> Value) list"

definition Get :: "Map \<Rightarrow> string \<Rightarrow> Value option" where
  "Get m k = map_of m k"

definition Clear :: "Map \<Rightarrow> Map" where
  "Clear m = []"

definition EnsureCapacity :: "Map \<Rightarrow> nat \<Rightarrow> Map" where
  "EnsureCapacity m capacity = m"

definition Insert :: "Map \<Rightarrow> string \<Rightarrow> Value \<Rightarrow> Map" where
  "Insert m k v = (if Get m k = None then m @ [(k, v)] else m)"

definition InsertNull :: "Map \<Rightarrow> string \<Rightarrow> Map" where
  "InsertNull m k = Insert m k ValueNull"

definition InsertString :: "Map \<Rightarrow> string \<Rightarrow> string \<Rightarrow> Map" where
  "InsertString m k v = Insert m k (ValueString v)"

definition InsertInt :: "Map \<Rightarrow> string \<Rightarrow> int64 \<Rightarrow> Map" where
  "InsertInt m k v = Insert m k (ValueInt v)"

definition InsertDouble :: "Map \<Rightarrow> string \<Rightarrow> float64 \<Rightarrow> Map" where
  "InsertDouble m k v = Insert m k (ValueDouble v)"

definition InsertBool :: "Map \<Rightarrow> string \<Rightarrow> bool \<Rightarrow> Map" where
  "InsertBool m k v = Insert m k (ValueBool v)"

definition NewValueMap :: Value where
  "NewValueMap = ValueMap []"

fun MapVal :: "Value \<Rightarrow> Map" where
  "MapVal (ValueMap m) = m"
| "MapVal _ = []"

text \<open>
  A log record: its time in nanoseconds (\<^verbatim>\<open>pcommon.Timestamp\<close>, a \<^verbatim>\<open>uint64\<close>) and its
  attributes. \<^verbatim>\<open>plog.Logs\<close> is a slice of resource logs, each a slice of scope logs,
  each a slice of records.
\<close>

record LogRecord =
  TimeUnixNano :: uint64
  Attributes :: Map

datatype ScopeLogs = ScopeLogs (LogRecords: "LogRecord list")
datatype ResourceLogs = ResourceLogs (ScopeLogsOf: "ScopeLogs list")
datatype Logs = Logs (ResourceLogsOf: "ResourceLogs list")

definition NewLogRecord :: LogRecord where
  "NewLogRecord = \<lparr>TimeUnixNano = 0, Attributes = []\<rparr>"

text \<open>
  \<^verbatim>\<open>newLogs\<close> appends one empty resource, scope and record, and returns the container
  with a reference to the record. The converter writes through the reference only, so
  the container it returns holds the record as last written: \<open>newLogs lr\<close> is that
  container around the record \<open>lr\<close>.
\<close>

definition newLogs :: "LogRecord \<Rightarrow> Logs" where
  "newLogs lr = Logs [ResourceLogs [ScopeLogs [lr]]]"

section \<open>The logger\<close>

text \<open>
  A \<^verbatim>\<open>*zap.Logger\<close> is nil or a sink; the sink is the list of the entries it has been
  handed, oldest first. Calling \<^verbatim>\<open>Debug\<close> on a nil logger dereferences it.
\<close>

datatype Level = DebugLevel | InfoLevel | WarnLevel | ErrorLevel

record Entry =
  EntryLevel :: Level
  EntryMessage :: string
  EntryFields :: "(string \<times> string) list"

type_synonym Logger = "Entry list"

datatype error = NilPointerDereference

definition zapString :: "string \<Rightarrow> string \<Rightarrow> string \<times> string" where
  "zapString key val = (key, val)"

definition Debug :: "Logger option \<Rightarrow> string \<Rightarrow> (string \<times> string) list \<Rightarrow> error + Logger" where
  "Debug logger msg fs =
     (case logger of
        None \<Rightarrow> Inl NilPointerDereference
      | Some lg \<Rightarrow> Inr (lg @ [\<lparr>EntryLevel = DebugLevel, EntryMessage = msg, EntryFields = fs\<rparr>]))"

section \<open>Rendering and widening\<close>

text \<open>
  \<^verbatim>\<open>fmt.Sprintf("%v", v)\<close> of an unsigned integer is its base-10 numeral.
\<close>

definition digit :: "nat \<Rightarrow> char" where
  "digit d = char_of (48 + d)"

fun FormatUint :: "nat \<Rightarrow> string" where
  "FormatUint n = (if n < 10 then [digit n] else FormatUint (n div 10) @ [digit (n mod 10)])"

declare FormatUint.simps [simp del]

text \<open>
  The conversion \<^verbatim>\<open>float64(v)\<close> of a \<^verbatim>\<open>float32\<close>, on bit patterns: sign (1 bit),
  biased exponent (8 bits, then 11) and fraction (23 bits, then 52). A normal number
  keeps its fraction and has its exponent rebiased, a subnormal one becomes normal
  (\<open>Len\<close> is \<^verbatim>\<open>bits.Len\<close>, the length of a number in bits), zeros and infinities keep
  their sign, and a NaN keeps its payload and comes out quiet, as the conversion
  instructions of amd64 and arm64 leave it.
\<close>

definition sign32 :: "float32 \<Rightarrow> nat" where
  "sign32 w = unat w div 2 ^ 31"

definition exponent32 :: "float32 \<Rightarrow> nat" where
  "exponent32 w = unat w div 2 ^ 23 mod 2 ^ 8"

definition fraction32 :: "float32 \<Rightarrow> nat" where
  "fraction32 w = unat w mod 2 ^ 23"

definition sign64 :: "float64 \<Rightarrow> nat" where
  "sign64 w = unat w div 2 ^ 63"

definition exponent64 :: "float64 \<Rightarrow> nat" where
  "exponent64 w = unat w div 2 ^ 52 mod 2 ^ 11"

definition fraction64 :: "float64 \<Rightarrow> nat" where
  "fraction64 w = unat w mod 2 ^ 52"

definition Float64frombits :: "nat \<Rightarrow> nat \<Rightarrow> nat \<Rightarrow> float64" where
  "Float64frombits s e f = word_of_nat (s * 2 ^ 63 + e * 2 ^ 52 + f)"

fun Len :: "nat \<Rightarrow> nat" where
  "Len n = (if n = 0 then 0 else Suc (Len (n div 2)))"

declare Len.simps [simp del]

definition float64_of_float32 :: "float32 \<Rightarrow> float64" where
  "float64_of_float32 w =
     (let s = sign32 w; e = exponent32 w; f = fraction32 w in
      if e = 255 then
        (if f = 0 then Float64frombits s 2047 0
         else Float64frombits s 2047 ((if f < 2 ^ 22 then f + 2 ^ 22 else f) * 2 ^ 29))
      else if e = 0 then
        (if f = 0 then Float64frombits s 0 0
         else let k = Len f - 1 in Float64frombits s (k + 874) ((f - 2 ^ k) * 2 ^ (52 - k)))
      else Float64frombits s (e + 896) (f * 2 ^ 29))"

text \<open>The number a finite bit pattern stands for.\<close>

definition finite32 :: "float32 \<Rightarrow> bool" where
  "finite32 w \<longleftrightarrow> exponent32 w < 255"

definition finite64 :: "float64 \<Rightarrow> bool" where
  "finite64 w \<longleftrightarrow> exponent64 w < 2047"

definition valof32 :: "float32 \<Rightarrow> real" where
  "valof32 w = (- 1) ^ sign32 w *
     (if exponent32 w = 0 then real (fraction32 w) / 2 ^ 149
      else real (2 ^ 23 + fraction32 w) * 2 ^ exponent32 w / 2 ^ 150)"

definition valof64 :: "float64 \<Rightarrow> real" where
  "valof64 w = (- 1) ^ sign64 w *
     (if exponent64 w = 0 then real (fraction64 w) / 2 ^ 1074
      else real (2 ^ 52 + fraction64 w) * 2 ^ exponent64 w / 2 ^ 1075)"

section \<open>The converter\<close>

definition SFxEventCategoryKey :: string where
  "SFxEventCategoryKey = ''com.splunk.signalfx.event_category''"

definition SFxEventPropertiesKey :: string where
  "SFxEventPropertiesKey = ''com.splunk.signalfx.event_properties''"

definition SFxEventType :: string where
  "SFxEventType = ''com.splunk.signalfx.event_type''"

text \<open>
  The type switch of lines 82 to 106. The \<^verbatim>\<open>default\<close> case is written out for each
  dynamic type that reaches it: an unsigned integer prints in base 10, the nil interface
  prints as \<^verbatim>\<open><nil>\<close>, and \<open>fmtv\<close> is \<^verbatim>\<open>fmt.Sprintf("%v", _)\<close> on the other types.
\<close>

fun insertProperty :: "('o \<Rightarrow> string) \<Rightarrow> Map \<Rightarrow> string \<Rightarrow> 'o any \<Rightarrow> Map" where
  "insertProperty fmtv propMap property (GoString v) = InsertString propMap property v"
| "insertProperty fmtv propMap property (GoBool v) = InsertBool propMap property v"
| "insertProperty fmtv propMap property (GoInt v) = InsertInt propMap property (scast v)"
| "insertProperty fmtv propMap property (GoInt8 v) = InsertInt propMap property (scast v)"
| "insertProperty fmtv propMap property (GoInt16 v) = InsertInt propMap property (scast v)"
| "insertProperty fmtv propMap property (GoInt32 v) = InsertInt propMap property (scast v)"
| "insertProperty fmtv propMap property (GoInt64 v) = InsertInt propMap property v"
| "insertProperty fmtv propMap property (GoFloat32 v) =
     InsertDouble propMap property (float64_of_float32 v)"
| "insertProperty fmtv propMap property (GoFloat64 v) = InsertDouble propMap property v"
| "insertProperty fmtv propMap property (GoUint v) = InsertString propMap property (FormatUint (unat v))"
| "insertProperty fmtv propMap property (GoUint8 v) = InsertString propMap property (FormatUint (unat v))"
| "insertProperty fmtv propMap property (GoUint16 v) = InsertString propMap property (FormatUint (unat v))"
| "insertProperty fmtv propMap property (GoUint32 v) = InsertString propMap property (FormatUint (unat v))"
| "insertProperty fmtv propMap property (GoUint64 v) = InsertString propMap property (FormatUint (unat v))"
| "insertProperty fmtv propMap property (GoUintptr v) = InsertString propMap property (FormatUint (unat v))"
| "insertProperty fmtv propMap property (GoOther v) = InsertString propMap property (fmtv v)"
| "insertProperty fmtv propMap property GoNil = InsertString propMap property ''<nil>''"

text \<open>The loop of lines 76 to 107 over the properties, in iteration order.\<close>

fun propertiesLoop ::
  "('o \<Rightarrow> string) \<Rightarrow> (string \<times> 'o any) list \<Rightarrow> Map \<Rightarrow> Logger option \<Rightarrow> error + (Map \<times> Logger option)" where
  "propertiesLoop fmtv [] propMap logger = Inr (propMap, logger)"
| "propertiesLoop fmtv ((property, val) # rest) propMap logger =
     (if val = GoNil then
        (case Debug logger ''property with nil value will not be reported''
                [zapString ''property'' property] of
           Inl e \<Rightarrow> Inl e
         | Inr lg \<Rightarrow> propertiesLoop fmtv rest propMap (Some lg))
      else propertiesLoop fmtv rest (insertProperty fmtv propMap property val) logger)"

text \<open>The loop of lines 66 to 68 over the dimensions, in iteration order.\<close>

fun dimensionsLoop :: "(string \<times> string) list \<Rightarrow> Map \<Rightarrow> Map" where
  "dimensionsLoop [] attrs = attrs"
| "dimensionsLoop ((k, v) # rest) attrs = dimensionsLoop rest (InsertString attrs k v)"

definition sfxEventToPDataLogs ::
  "('o \<Rightarrow> string) \<Rightarrow> 'o Event option \<Rightarrow> Logger option \<Rightarrow> error + (Logs \<times> Logger option)" where
  "sfxEventToPDataLogs fmtv eventp logger =
     (case eventp of
        None \<Rightarrow> Inl NilPointerDereference
      | Some event \<Rightarrow>
          let lr = NewLogRecord;
              unixNano = (if \<not> IsZero (Timestamp event) then UnixNano (Timestamp event) else 0);
              lr = lr\<lparr>TimeUnixNano := unixNano\<rparr>;
              attrsCapacity = 2 + length (Dimensions event);
              attrsCapacity =
                (if length (Properties event) > 0 then attrsCapacity + 1 else attrsCapacity);
              attrs = Attributes lr;
              attrs = Clear attrs;
              attrs = EnsureCapacity attrs attrsCapacity;
              attrs =
                (if Category event = 0 then InsertNull attrs SFxEventCategoryKey
                 else InsertInt attrs SFxEventCategoryKey (scast (Category event)));
              attrs =
                (if EventType event \<noteq> [] then InsertString attrs SFxEventType (EventType event)
                 else attrs);
              attrs = dimensionsLoop (Dimensions event) attrs
          in
            if length (Properties event) > 0 then
              (let propMapVal = NewValueMap;
                   propMap = MapVal propMapVal;
                   propMap = Clear propMap;
                   propMap = EnsureCapacity propMap (length (Properties event))
               in case propertiesLoop fmtv (Properties event) propMap logger of
                    Inl e \<Rightarrow> Inl e
                  | Inr (propMap, logger') \<Rightarrow>
                      Inr (newLogs (lr\<lparr>Attributes :=
                             Insert attrs SFxEventPropertiesKey (ValueMap propMap)\<rparr>), logger'))
            else Inr (newLogs (lr\<lparr>Attributes := attrs\<rparr>), logger))"

section \<open>Reading a result\<close>

text \<open>
  The record of a returned container that holds exactly one resource, one scope and one
  record; its timestamp, its attributes and the nested map under the properties key; and
  the entries the call handed to the logger. Each is \<open>None\<close> when the call panicked.
\<close>

fun theRecord :: "Logs \<Rightarrow> LogRecord option" where
  "theRecord (Logs [ResourceLogs [ScopeLogs [lr]]]) = Some lr"
| "theRecord _ = None"

definition outputRecord :: "error + (Logs \<times> Logger option) \<Rightarrow> LogRecord option" where
  "outputRecord r = (case r of Inl e \<Rightarrow> None | Inr (logs, logger) \<Rightarrow> theRecord logs)"

definition outputAttributes :: "error + (Logs \<times> Logger option) \<Rightarrow> Map option" where
  "outputAttributes r = map_option Attributes (outputRecord r)"

definition outputTimestamp :: "error + (Logs \<times> Logger option) \<Rightarrow> uint64 option" where
  "outputTimestamp r = map_option TimeUnixNano (outputRecord r)"

definition outputLogger :: "error + (Logs \<times> Logger option) \<Rightarrow> Logger option" where
  "outputLogger r = (case r of Inl e \<Rightarrow> None | Inr (logs, logger) \<Rightarrow> logger)"

definition outputAttribute :: "error + (Logs \<times> Logger option) \<Rightarrow> string \<Rightarrow> Value option" where
  "outputAttribute r k = (case outputAttributes r of None \<Rightarrow> None | Some attrs \<Rightarrow> Get attrs k)"

text \<open>The attribute one case of the type switch inserts.\<close>

fun propertyValue :: "('o \<Rightarrow> string) \<Rightarrow> 'o any \<Rightarrow> Value" where
  "propertyValue fmtv (GoString v) = ValueString v"
| "propertyValue fmtv (GoBool v) = ValueBool v"
| "propertyValue fmtv (GoInt v) = ValueInt (scast v)"
| "propertyValue fmtv (GoInt8 v) = ValueInt (scast v)"
| "propertyValue fmtv (GoInt16 v) = ValueInt (scast v)"
| "propertyValue fmtv (GoInt32 v) = ValueInt (scast v)"
| "propertyValue fmtv (GoInt64 v) = ValueInt v"
| "propertyValue fmtv (GoFloat32 v) = ValueDouble (float64_of_float32 v)"
| "propertyValue fmtv (GoFloat64 v) = ValueDouble v"
| "propertyValue fmtv (GoUint v) = ValueString (FormatUint (unat v))"
| "propertyValue fmtv (GoUint8 v) = ValueString (FormatUint (unat v))"
| "propertyValue fmtv (GoUint16 v) = ValueString (FormatUint (unat v))"
| "propertyValue fmtv (GoUint32 v) = ValueString (FormatUint (unat v))"
| "propertyValue fmtv (GoUint64 v) = ValueString (FormatUint (unat v))"
| "propertyValue fmtv (GoUintptr v) = ValueString (FormatUint (unat v))"
| "propertyValue fmtv (GoOther v) = ValueString (fmtv v)"
| "propertyValue fmtv GoNil = ValueString ''<nil>''"

text \<open>The entry \<^verbatim>\<open>logger.Debug\<close> is called with for a skipped property.\<close>

definition nilEntry :: "string \<Rightarrow> Entry" where
  "nilEntry property =
     \<lparr>EntryLevel = DebugLevel,
      EntryMessage = ''property with nil value will not be reported'',
      EntryFields = [(''property'', property)]\<rparr>"

section \<open>The map operations and the two loops\<close>

lemma Get_Insert:
  "Get (Insert m k v) k' =
     (case Get m k' of Some x \<Rightarrow> Some x | None \<Rightarrow> if k' = k then Some v else None)"
  by (auto simp: Insert_def Get_def map_add_def split: option.splits)

lemma distinct_Insert:
  "distinct (map fst m) \<Longrightarrow> distinct (map fst (Insert m k v))"
  by (auto simp: Insert_def Get_def map_of_eq_None_iff)

lemma keys_Insert:
  "set (map fst (Insert m k v)) = insert k (set (map fst m))"
  by (auto simp: Insert_def Get_def map_of_eq_None_iff)

lemma Get_dimensionsLoop:
  "Get (dimensionsLoop ds a) k =
     (case Get a k of Some x \<Rightarrow> Some x | None \<Rightarrow> map_option ValueString (map_of ds k))"
  by (induction ds a rule: dimensionsLoop.induct)
     (auto simp: InsertString_def Get_Insert split: option.splits)

lemma distinct_dimensionsLoop:
  "distinct (map fst a) \<Longrightarrow> distinct (map fst (dimensionsLoop ds a))"
  by (induction ds a rule: dimensionsLoop.induct) (auto simp: InsertString_def distinct_Insert)

lemma insertProperty_Insert:
  "insertProperty fmtv m k v = Insert m k (propertyValue fmtv v)"
  by (cases v) (simp_all add: InsertString_def InsertBool_def InsertInt_def InsertDouble_def)

lemma propertiesLoop_Some:
  "propertiesLoop fmtv ps pm (Some lg) =
     Inr (fold (\<lambda>p m. Insert m (fst p) (propertyValue fmtv (snd p))) (filter (\<lambda>p. snd p \<noteq> GoNil) ps) pm,
          Some (lg @ map (\<lambda>p. nilEntry (fst p)) (filter (\<lambda>p. snd p = GoNil) ps)))"
  by (induction ps arbitrary: pm lg)
     (auto simp: Debug_def zapString_def nilEntry_def insertProperty_Insert)

lemma fold_Insert_fresh:
  "distinct (map fst ps) \<Longrightarrow> set (map fst ps) \<inter> set (map fst m) = {} \<Longrightarrow>
   fold (\<lambda>p m. Insert m (fst p) (f (snd p))) ps m = m @ map (\<lambda>p. (fst p, f (snd p))) ps"
proof (induction ps arbitrary: m)
  case Nil
  then show ?case by simp
next
  case (Cons p ps)
  have fresh: "Get m (fst p) = None"
    using Cons.prems(2) by (auto simp: Get_def map_of_eq_None_iff)
  then have step: "Insert m (fst p) (f (snd p)) = m @ [(fst p, f (snd p))]"
    by (simp add: Insert_def)
  have "set (map fst ps) \<inter> set (map fst (m @ [(fst p, f (snd p))])) = {}"
    using Cons.prems by auto
  with Cons.IH [of "m @ [(fst p, f (snd p))]"] Cons.prems(1) step show ?case
    by simp
qed

lemma filter_key_unique:
  "distinct (map fst m) \<Longrightarrow> map_of m k = Some v \<Longrightarrow> filter (\<lambda>p. fst p = k) m = [(k, v)]"
proof (induction m)
  case Nil
  then show ?case by simp
next
  case (Cons p m)
  show ?case
  proof (cases "fst p = k")
    case True
    with Cons.prems have "snd p = v" and "k \<notin> fst ` set m" by auto
    then have "filter (\<lambda>p. fst p = k) m = []" by (auto simp: filter_empty_conv)
    with True \<open>snd p = v\<close> show ?thesis by (cases p) auto
  next
    case False
    with Cons show ?thesis by auto
  qed
qed

lemma sfxEventToPDataLogs_Some:
  "sfxEventToPDataLogs fmtv (Some e) (Some lg) =
     Inr (newLogs
            \<lparr>TimeUnixNano = (if IsZero (Timestamp e) then 0 else UnixNano (Timestamp e)),
             Attributes =
               (let a = dimensionsLoop (Dimensions e)
                          (let c = Insert [] SFxEventCategoryKey
                                     (if Category e = 0 then ValueNull else ValueInt (scast (Category e)))
                           in if EventType e = [] then c
                              else Insert c SFxEventType (ValueString (EventType e)))
                in if Properties e = [] then a
                   else Insert a SFxEventPropertiesKey
                          (ValueMap (fold (\<lambda>p m. Insert m (fst p) (propertyValue fmtv (snd p)))
                                       (filter (\<lambda>p. snd p \<noteq> GoNil) (Properties e)) [])))\<rparr>,
          Some (lg @ map (\<lambda>p. nilEntry (fst p)) (filter (\<lambda>p. snd p = GoNil) (Properties e))))"
  by (simp add: sfxEventToPDataLogs_def Let_def propertiesLoop_Some NewLogRecord_def Clear_def
      EnsureCapacity_def InsertNull_def InsertInt_def InsertString_def NewValueMap_def)

lemma marker_keys_distinct:
  "SFxEventCategoryKey \<noteq> SFxEventType" "SFxEventCategoryKey \<noteq> SFxEventPropertiesKey"
  "SFxEventType \<noteq> SFxEventPropertiesKey"
  by (simp_all add: SFxEventCategoryKey_def SFxEventType_def SFxEventPropertiesKey_def)

lemma Get_Nil: "Get [] k = None"
  by (simp add: Get_def)

lemma outputAttributes_newLogs:
  "outputAttributes (Inr (newLogs lr, logger)) = Some (Attributes lr)"
  by (simp add: outputAttributes_def outputRecord_def newLogs_def)

lemma outputAttribute_eq:
  "outputAttribute (sfxEventToPDataLogs fmtv (Some e) (Some lg)) k =
     (if k = SFxEventCategoryKey then
        Some (if Category e = 0 then ValueNull else ValueInt (scast (Category e)))
      else if k = SFxEventType \<and> EventType e \<noteq> [] then Some (ValueString (EventType e))
      else case map_of (Dimensions e) k of
             Some v \<Rightarrow> Some (ValueString v)
           | None \<Rightarrow>
               if k = SFxEventPropertiesKey \<and> Properties e \<noteq> [] then
                 Some (ValueMap (fold (\<lambda>p m. Insert m (fst p) (propertyValue fmtv (snd p)))
                                   (filter (\<lambda>p. snd p \<noteq> GoNil) (Properties e)) []))
               else None)"
  using marker_keys_distinct
  by (simp add: outputAttribute_def sfxEventToPDataLogs_Some outputAttributes_newLogs Let_def
      Get_Insert Get_dimensionsLoop Get_Nil split: option.splits)

lemma distinct_outputAttributes:
  "\<exists>attrs. outputAttributes (sfxEventToPDataLogs fmtv (Some e) (Some lg)) = Some attrs \<and>
     distinct (map fst attrs)"
  by (simp add: sfxEventToPDataLogs_Some outputAttributes_newLogs Let_def
      distinct_Insert distinct_dimensionsLoop)

section \<open>The claims\<close>

text \<open>
  C1. For every event, converted with a logger that is not nil, the attributes of the
  produced record hold exactly one entry under the category marker key
  \<^verbatim>\<open>com.splunk.signalfx.event_category\<close>: a null value when \<^verbatim>\<open>Category\<close> is 0, and
  otherwise a 64-bit integer whose value is that of \<^verbatim>\<open>Category\<close>.
\<close>

theorem C1_category_attribute:
  "\<exists>attrs. outputAttributes (sfxEventToPDataLogs fmtv (Some e) (Some lg)) = Some attrs \<and>
     filter (\<lambda>p. fst p = SFxEventCategoryKey) attrs =
       [(SFxEventCategoryKey,
         if Category e = 0 then ValueNull else ValueInt (scast (Category e)))] \<and>
     sint (scast (Category e) :: int64) = sint (Category e)"
proof -
  let ?r = "sfxEventToPDataLogs fmtv (Some e) (Some lg)"
  let ?v = "if Category e = 0 then ValueNull else ValueInt (scast (Category e))"
  obtain attrs where a: "outputAttributes ?r = Some attrs" and d: "distinct (map fst attrs)"
    using distinct_outputAttributes by blast
  have "outputAttribute ?r SFxEventCategoryKey = Some ?v"
    by (simp add: outputAttribute_eq)
  with a have "map_of attrs SFxEventCategoryKey = Some ?v"
    by (simp add: outputAttribute_def Get_def)
  with d have "filter (\<lambda>p. fst p = SFxEventCategoryKey) attrs = [(SFxEventCategoryKey, ?v)]"
    by (rule filter_key_unique)
  moreover have "sint (scast (Category e) :: int64) = sint (Category e)"
    by (simp add: sint_up_scast is_up)
  ultimately show ?thesis using a by blast
qed

end
